theory Spec2Isabelle
  imports Complex_Main
begin

section \<open>Node identities, objects and errors\<close>

text \<open>
  A graph vertex (\<^verbatim>\<open>internal::Node\<close>) is known to the binding only through its identity.
  Objects created on the free store by \<^verbatim>\<open>std::make_unique\<close> are numbered in the order
  of their creation, so that two references are equal exactly when they name the same
  object.
\<close>

type_synonym node = nat

type_synonym obj = nat

datatype error = EmptyTargetsError | CyclicDependencyError | InvalidSeedError | NotEvaluatedError

record store =
  created :: nat
  alive :: "obj set"

definition make_unique :: "store \<Rightarrow> obj \<times> store" where
  "make_unique h = (created h, \<lparr>created = Suc (created h), alive = insert (created h) (alive h)\<rparr>)"

text \<open>Assigning to, or resetting, a \<^verbatim>\<open>std::unique_ptr\<close> destroys the object it owned.\<close>

definition destroy :: "(obj \<times> 'a) option \<Rightarrow> store \<Rightarrow> store" where
  "destroy p h = (case p of None \<Rightarrow> h | Some (a, _) \<Rightarrow> h\<lparr>alive := alive h - {a}\<rparr>)"

section \<open>Evaluator.hpp\<close>

text \<open>
  The expression an evaluator wraps is a type of the AutoDiff core library; the evaluator
  uses five of its member functions and nothing else. They are a parameter of the model:
  each acts on the state \<open>'s\<close> of the wrapped expression (the member \<^verbatim>\<open>mExpression\<close>
  together with what it reaches).
\<close>

record ('s, 'v, 'd) expression =
  expr_value :: "'s \<Rightarrow> 'v \<times> 's"
  expr_pushForward :: "'s \<Rightarrow> 'd \<times> 's"
  expr_pullBack :: "'d \<Rightarrow> 's \<Rightarrow> 's"
  expr_releaseCache :: "'s \<Rightarrow> 's"
  expr_transferChildrenTo :: "node \<Rightarrow> 's \<Rightarrow> 's"

text \<open>
  The primary template \<^verbatim>\<open>Evaluator<Expr>\<close>. A \<^verbatim>\<open>std::unique_ptr\<close> is either empty or
  owns one object, kept here with its identity.
\<close>

record ('s, 'v, 'd) Evaluator =
  mExpression :: 's
  mValuePtr :: "(obj \<times> 'v) option"
  mDerivativePtr :: "(obj \<times> 'd) option"

definition Evaluator_init :: "'s \<Rightarrow> ('s, 'v, 'd) Evaluator" where
  "Evaluator_init expression = \<lparr>mExpression = expression, mValuePtr = None, mDerivativePtr = None\<rparr>"

definition Evaluator_transferChildrenTo ::
  "('s, 'v, 'd) expression \<Rightarrow> node \<Rightarrow> ('s, 'v, 'd) Evaluator \<Rightarrow> ('s, 'v, 'd) Evaluator" where
  "Evaluator_transferChildrenTo E n ev = ev\<lparr>mExpression := expr_transferChildrenTo E n (mExpression ev)\<rparr>"

text \<open>
  \<^verbatim>\<open>mValuePtr = std::make_unique<Value>(mExpression._value()); return *mValuePtr;\<close>
  The right-hand side is evaluated first (the expression is asked for its value and a new
  object is created from it), then the assignment destroys the object held before. The
  result is the reference to the new object, given as its identity and its content.
\<close>

definition Evaluator_value ::
  "('s, 'v, 'd) expression \<Rightarrow> ('s, 'v, 'd) Evaluator \<Rightarrow> store
     \<Rightarrow> (obj \<times> 'v) \<times> ('s, 'v, 'd) Evaluator \<times> store" where
  "Evaluator_value E ev h =
     (let (v, s) = expr_value E (mExpression ev);
          (a, h1) = make_unique h;
          h2 = destroy (mValuePtr ev) h1
      in ((a, v), ev\<lparr>mExpression := s, mValuePtr := Some (a, v)\<rparr>, h2))"

definition Evaluator_pushForward ::
  "('s, 'v, 'd) expression \<Rightarrow> ('s, 'v, 'd) Evaluator \<Rightarrow> store
     \<Rightarrow> (obj \<times> 'd) \<times> ('s, 'v, 'd) Evaluator \<times> store" where
  "Evaluator_pushForward E ev h =
     (let (d, s) = expr_pushForward E (mExpression ev);
          (a, h1) = make_unique h;
          h2 = destroy (mDerivativePtr ev) h1
      in ((a, d), ev\<lparr>mExpression := s, mDerivativePtr := Some (a, d)\<rparr>, h2))"

definition Evaluator_pullBack ::
  "('s, 'v, 'd) expression \<Rightarrow> 'd \<Rightarrow> ('s, 'v, 'd) Evaluator \<Rightarrow> ('s, 'v, 'd) Evaluator" where
  "Evaluator_pullBack E gradient ev = ev\<lparr>mExpression := expr_pullBack E gradient (mExpression ev)\<rparr>"

definition Evaluator_releaseCache ::
  "('s, 'v, 'd) expression \<Rightarrow> ('s, 'v, 'd) Evaluator \<Rightarrow> store \<Rightarrow> ('s, 'v, 'd) Evaluator \<times> store" where
  "Evaluator_releaseCache E ev h =
     (let h1 = destroy (mValuePtr ev) h;
          h2 = destroy (mDerivativePtr ev) h1
      in (ev\<lparr>mExpression := expr_releaseCache E (mExpression ev),
              mValuePtr := None, mDerivativePtr := None\<rparr>, h2))"

text \<open>
  The partial specialisation \<^verbatim>\<open>Evaluator<Var>\<close> for types derived from
  \<^verbatim>\<open>AbstractVariable\<close>. It has the single member \<^verbatim>\<open>mVariable\<close>; the member functions
  of the variable are again a parameter. \<^verbatim>\<open>value\<close> and \<^verbatim>\<open>pushForward\<close> hand on the
  reference the variable returns, so no object is created.
\<close>

record 's EvaluatorVar =
  mVariable :: 's

definition EvaluatorVar_transferChildrenTo ::
  "('s, 'v, 'd) expression \<Rightarrow> node \<Rightarrow> 's EvaluatorVar \<Rightarrow> 's EvaluatorVar" where
  "EvaluatorVar_transferChildrenTo V n ev = ev\<lparr>mVariable := expr_transferChildrenTo V n (mVariable ev)\<rparr>"

definition EvaluatorVar_value ::
  "('s, 'v, 'd) expression \<Rightarrow> 's EvaluatorVar \<Rightarrow> 'v \<times> 's EvaluatorVar" where
  "EvaluatorVar_value V ev =
     (let (v, s) = expr_value V (mVariable ev) in (v, ev\<lparr>mVariable := s\<rparr>))"

definition EvaluatorVar_pushForward ::
  "('s, 'v, 'd) expression \<Rightarrow> 's EvaluatorVar \<Rightarrow> 'd \<times> 's EvaluatorVar" where
  "EvaluatorVar_pushForward V ev =
     (let (d, s) = expr_pushForward V (mVariable ev) in (d, ev\<lparr>mVariable := s\<rparr>))"

definition EvaluatorVar_pullBack ::
  "('s, 'v, 'd) expression \<Rightarrow> 'd \<Rightarrow> 's EvaluatorVar \<Rightarrow> 's EvaluatorVar" where
  "EvaluatorVar_pullBack V gradient ev = ev\<lparr>mVariable := expr_pullBack V gradient (mVariable ev)\<rparr>"

text \<open>\<^verbatim>\<open>void releaseCache() final { } // no cache\<close>: the body is empty.\<close>

definition EvaluatorVar_releaseCache ::
  "('s, 'v, 'd) expression \<Rightarrow> 's EvaluatorVar \<Rightarrow> store \<Rightarrow> 's EvaluatorVar \<times> store" where
  "EvaluatorVar_releaseCache V ev h = (ev, h)"

text \<open>
  Two expressions to run the evaluators on. The state of \<open>doubling\<close> is the current value
  of its one operand and the number of times it has been asked for its value or its
  derivative; its value is twice the operand, its derivative the constant 2; releasing
  its cache resets the counter. The second is a variable holding a value and a
  derivative, whose own release would clear the derivative.
\<close>

definition doubling :: "(int \<times> nat, int, int) expression" where
  "doubling = \<lparr>expr_value = (\<lambda>(x, k). (2 * x, (x, Suc k))),
               expr_pushForward = (\<lambda>(x, k). (2, (x, Suc k))),
               expr_pullBack = (\<lambda>g s. s),
               expr_releaseCache = (\<lambda>(x, k). (x, 0)),
               expr_transferChildrenTo = (\<lambda>n s. s)\<rparr>"

definition stored :: "(int \<times> int, int, int) expression" where
  "stored = \<lparr>expr_value = (\<lambda>(v, d). (v, (v, d))),
             expr_pushForward = (\<lambda>(v, d). (d, (v, d))),
             expr_pullBack = (\<lambda>g (v, d). (v, d + g)),
             expr_releaseCache = (\<lambda>(v, d). (v, 0)),
             expr_transferChildrenTo = (\<lambda>n s. s)\<rparr>"

definition store0 :: store where
  "store0 = \<lparr>created = 0, alive = {}\<rparr>"

text \<open>Two calls of \<^verbatim>\<open>value()\<close> in a row, with nothing in between.\<close>

definition value_twice ::
  "('s, 'v, 'd) expression \<Rightarrow> ('s, 'v, 'd) Evaluator \<Rightarrow> store
     \<Rightarrow> (obj \<times> 'v) \<times> (obj \<times> 'v) \<times> ('s, 'v, 'd) Evaluator \<times> store" where
  "value_twice E ev h =
     (let (r1, ev1, h1) = Evaluator_value E ev h;
          (r2, ev2, h2) = Evaluator_value E ev1 h1
      in (r1, r2, ev2, h2))"

definition pushForward_twice ::
  "('s, 'v, 'd) expression \<Rightarrow> ('s, 'v, 'd) Evaluator \<Rightarrow> store
     \<Rightarrow> (obj \<times> 'd) \<times> (obj \<times> 'd) \<times> ('s, 'v, 'd) Evaluator \<times> store" where
  "pushForward_twice E ev h =
     (let (r1, ev1, h1) = Evaluator_pushForward E ev h;
          (r2, ev2, h2) = Evaluator_pushForward E ev1 h1
      in (r1, r2, ev2, h2))"

text \<open>
  What a memoising evaluator would do, following the words ``computing it on first
  access per cycle and caching it for repeated access'': the stored object is handed out
  when there is one, and the expression is asked only when there is none.
\<close>

definition memo_value ::
  "('s, 'v, 'd) expression \<Rightarrow> ('s, 'v, 'd) Evaluator \<Rightarrow> store
     \<Rightarrow> (obj \<times> 'v) \<times> ('s, 'v, 'd) Evaluator \<times> store" where
  "memo_value E ev h =
     (case mValuePtr ev of Some r \<Rightarrow> (r, ev, h) | None \<Rightarrow> Evaluator_value E ev h)"

section \<open>common.cpp: the sets a Function is built from\<close>

text \<open>
  The elements of the tuples are cast to \<^verbatim>\<open>AbstractVariable const&\<close> and asked for
  \<^verbatim>\<open>_node()\<close>; nothing else of them is used. The tuples here hold Variables, as the
  documented parameter types say (``tuple of Variable''), so the cast does not throw.
  Two Variable objects of Python may stand for the same node. \<^verbatim>\<open>Function::Sources\<close> and
  \<^verbatim>\<open>Function::Targets\<close> wrap a set of node identities (the member \<^verbatim>\<open>obj\<close>).
\<close>

datatype AbstractVariable = AbstractVariable (Variable_node: node)

type_synonym Sources = "node set"

type_synonym Targets = "node set"

definition createSources :: "AbstractVariable list \<Rightarrow> Sources" where
  "createSources sourcesTuple =
     fold (\<lambda>source sources. insert (Variable_node source) sources) sourcesTuple {}"

definition createTargets :: "AbstractVariable list \<Rightarrow> Targets" where
  "createTargets targetsTuple =
     fold (\<lambda>target targets. insert (Variable_node target) targets) targetsTuple {}"


definition Function_init_target ::
  "(Sources \<Rightarrow> Targets \<Rightarrow> 'f) \<Rightarrow> AbstractVariable \<Rightarrow> AbstractVariable list \<Rightarrow> 'f" where
  "Function_init_target F target sources = F (createSources sources) (createTargets [target])"

definition Function_init_source ::
  "(Sources \<Rightarrow> Targets \<Rightarrow> 'f) \<Rightarrow> AbstractVariable list \<Rightarrow> AbstractVariable \<Rightarrow> 'f" where
  "Function_init_source F targets source = F (createSources [source]) (createTargets targets)"

definition Function_init_target_source ::
  "(Sources \<Rightarrow> Targets \<Rightarrow> 'f) \<Rightarrow> AbstractVariable \<Rightarrow> AbstractVariable \<Rightarrow> 'f" where
  "Function_init_target_source F target source =
     F (createSources [source]) (createTargets [target])"

section \<open>Variable.hpp and the graph of Variables\<close>

text \<open>
  Modelled from the spec: the expressions of the core library, which is not part of the
  binding's sources. ``Operation: composed of zero or more operand Expressions plus one
  elementary rule''; ``Variable: addressable by identity''; a literal is a leaf. Values,
  derivatives and rules play no part in compilation and are left out.
\<close>

datatype expr = Literal | Var node | Operation "expr list"

text \<open>
  Modelled from the spec: the operand edges of an expression, that is the Variables it
  refers to by identity, directly or through nested Operations (the children that
  \<^verbatim>\<open>transferChildrenTo\<close> hands to the Variable the expression is assigned to).
\<close>

fun children :: "expr \<Rightarrow> node list" where
  "children Literal = []"
| "children (Var n) = [n]"
| "children (Operation es) = concat (map children es)"

text \<open>
  Modelled from the spec: the graph, as the arena of nodes addressed by stable indices
  that the design notes describe. Entry \<open>n\<close> is the current defining expression of the
  Variable with identity \<open>n\<close>; a Variable constructed from a literal has \<open>Literal\<close>.
\<close>

type_synonym graph = "expr list"

definition operands :: "graph \<Rightarrow> node \<Rightarrow> node list" where
  "operands g n = (if n < length g then children (g ! n) else [])"



section \<open>Function: compilation\<close>

text \<open>
  Modelled from the spec: the class \<^verbatim>\<open>Function\<close> of the core library, of which the
  binding holds only the member function pointers. A Function is a view: its sources and
  targets and, once compiled, the order of the discovered nodes. Evaluation and
  differentiation are not modelled.
\<close>

record Function =
  sources :: Sources
  targets :: Targets
  compiled_order :: "node list option"

text \<open>
  Modelled from the spec: the dependency walk of \<^verbatim>\<open>Function::compile\<close>. It goes ``from
  each target backward through operand edges, stopping at nodes in the source set (if
  non-empty) or at literal leaves otherwise'', puts every node after the nodes it was
  reached through, and ``detects cycles (a node reachable from itself through
  defining-expression edges)''. \<open>path\<close> holds the nodes whose operands are being walked,
  \<open>ord\<close> the order built so far. A node is appended once all its operands are in the
  order; meeting a node of \<open>path\<close> again is a cycle.
\<close>

function (sequential)
  visit :: "graph \<Rightarrow> node set \<Rightarrow> node list \<Rightarrow> node \<Rightarrow> node list \<Rightarrow> error + node list" and
  visit_all :: "graph \<Rightarrow> node set \<Rightarrow> node list \<Rightarrow> node list \<Rightarrow> node list \<Rightarrow> error + node list"
where
  "visit g S path n ord =
     (if n \<in> set ord then Inr ord
      else if n \<in> set path then Inl CyclicDependencyError
      else if n \<in> S \<or> \<not> n < length g then Inr (ord @ [n])
      else case visit_all g S (n # path) (operands g n) ord of
             Inl e \<Rightarrow> Inl e
           | Inr ord' \<Rightarrow> Inr (ord' @ [n]))"
| "visit_all g S path [] ord = Inr ord"
| "visit_all g S path (m # ms) ord =
     (case visit g S path m ord of
        Inl e \<Rightarrow> Inl e
      | Inr ord' \<Rightarrow> visit_all g S path ms ord')"
  by pat_completeness auto

termination
proof (relation "inv_image (less_than <*lex*> less_than)
    (\<lambda>x. case x of
       Inl (g, S, path, n, ord) \<Rightarrow> (card ({..<length g} - set path), 0)
     | Inr (g, S, path, ns, ord) \<Rightarrow> (card ({..<length g} - set path), Suc (length ns)))",
    goal_cases)
  case 1
  show ?case by (intro wf_inv_image wf_lex_prod wf_less_than)
next
  case (2 g S path n ord)
  then have "n \<in> {..<length g} - set path" by simp
  then have "card ({..<length g} - set path - {n}) < card ({..<length g} - set path)"
    by (intro card_Diff1_less) auto
  moreover have "{..<length g} - set (n # path) = {..<length g} - set path - {n}" by auto
  ultimately show ?case by simp
next
  case 3
  then show ?case by simp
next
  case 4
  then show ?case by simp
qed


text \<open>
  The dependencies of the graph: \<open>n\<close> depends on each operand of its defining expression.
  A Function sees those its walk follows: a declared source is an input of the Function,
  and the walk does not look behind it.
\<close>

definition depends_on :: "graph \<Rightarrow> (node \<times> node) set" where
  "depends_on g = {(n, m). m \<in> set (operands g n)}"

definition walked :: "graph \<Rightarrow> node set \<Rightarrow> (node \<times> node) set" where
  "walked g S = {(n, m). n \<notin> S \<and> m \<in> set (operands g n)}"

text \<open>
  An order is topological for a set of edges when no node occurs twice and whatever a
  node of the order points to stands before it.
\<close>

definition operands_first :: "(node \<times> node) set \<Rightarrow> node list \<Rightarrow> bool" where
  "operands_first E ord \<longleftrightarrow>
     distinct ord \<and> (\<forall>i < length ord. \<forall>m. (ord ! i, m) \<in> E \<longrightarrow> m \<in> set (take i ord))"






section \<open>Properties of the evaluators\<close>

lemma Evaluator_value_unfold:
  "Evaluator_value E ev h =
     ((created h, fst (expr_value E (mExpression ev))),
      ev\<lparr>mExpression := snd (expr_value E (mExpression ev)),
         mValuePtr := Some (created h, fst (expr_value E (mExpression ev)))\<rparr>,
      destroy (mValuePtr ev)
        \<lparr>created = Suc (created h), alive = insert (created h) (alive h)\<rparr>)"
  by (simp add: Evaluator_value_def make_unique_def split_beta Let_def)

lemma Evaluator_pushForward_unfold:
  "Evaluator_pushForward E ev h =
     ((created h, fst (expr_pushForward E (mExpression ev))),
      ev\<lparr>mExpression := snd (expr_pushForward E (mExpression ev)),
         mDerivativePtr := Some (created h, fst (expr_pushForward E (mExpression ev)))\<rparr>,
      destroy (mDerivativePtr ev)
        \<lparr>created = Suc (created h), alive = insert (created h) (alive h)\<rparr>)"
  by (simp add: Evaluator_pushForward_def make_unique_def split_beta Let_def)

lemma created_destroy [simp]: "created (destroy p h) = created h"
  by (simp add: destroy_def split: option.splits prod.splits)

lemma alive_destroy:
  "alive (destroy p h) = alive h - (case p of None \<Rightarrow> {} | Some r \<Rightarrow> {fst r})"
  by (simp add: destroy_def split: option.splits prod.splits)

lemma value_twice_unfold:
  "value_twice E ev h =
     (fst (Evaluator_value E ev h),
      fst (Evaluator_value E (fst (snd (Evaluator_value E ev h)))
             (snd (snd (Evaluator_value E ev h)))),
      snd (Evaluator_value E (fst (snd (Evaluator_value E ev h)))
             (snd (snd (Evaluator_value E ev h)))))"
  by (simp add: value_twice_def split_beta)

lemma pushForward_twice_unfold:
  "pushForward_twice E ev h =
     (fst (Evaluator_pushForward E ev h),
      fst (Evaluator_pushForward E (fst (snd (Evaluator_pushForward E ev h)))
             (snd (snd (Evaluator_pushForward E ev h)))),
      snd (Evaluator_pushForward E (fst (snd (Evaluator_pushForward E ev h)))
             (snd (snd (Evaluator_pushForward E ev h)))))"
  by (simp add: pushForward_twice_def split_beta)

text \<open>
  C1, as stated: \<^verbatim>\<open>value()\<close> computes on first access and a repeated call returns the
  same reference. It fails on the evaluator of \<open>doubling\<close> with operand 3: the first call
  returns object 0, the second call returns the new object 1, the stored object is not
  consulted (a memoising evaluator would return object 0 again), and the expression has
  then been asked for its value twice.
\<close>

theorem Evaluator_value_not_memoised:
  "fst (value_twice doubling (Evaluator_init (3, 0)) store0) = (0, 6) \<and>
   fst (snd (value_twice doubling (Evaluator_init (3, 0)) store0)) = (1, 6) \<and>
   fst (value_twice doubling (Evaluator_init (3, 0)) store0)
     \<noteq> fst (snd (value_twice doubling (Evaluator_init (3, 0)) store0)) \<and>
   snd (mExpression (fst (snd (snd (value_twice doubling (Evaluator_init (3, 0)) store0))))) = 2 \<and>
   Evaluator_value doubling \<lparr>mExpression = (3, 1), mValuePtr = Some (0, 6), mDerivativePtr = None\<rparr>
       \<lparr>created = 1, alive = {0}\<rparr>
     \<noteq> memo_value doubling \<lparr>mExpression = (3, 1), mValuePtr = Some (0, 6), mDerivativePtr = None\<rparr>
       \<lparr>created = 1, alive = {0}\<rparr>"
  by (simp add: value_twice_unfold Evaluator_value_unfold memo_value_def Evaluator_init_def
      doubling_def store0_def destroy_def)

text \<open>
  C1, amended: every call of \<^verbatim>\<open>value()\<close> asks the wrapped expression for its value
  again, whatever is stored; it puts the result into a newly created object, which the
  evaluator then owns, destroys the object stored before, and returns the reference to
  the new object. Of two calls in a row the second returns an equal result whenever the
  expression yields an equal value again, and always a different object: the object of
  the first call is destroyed by the second. \<^verbatim>\<open>pushForward()\<close> does the same with the
  derivative. \<^verbatim>\<open>releaseCache()\<close> destroys both stored objects, empties both pointers
  and releases the wrapped expression.
\<close>

theorem Evaluator_value_recomputes:
  "snd (fst (Evaluator_value E ev h)) = fst (expr_value E (mExpression ev)) \<and>
   fst (fst (Evaluator_value E ev h)) = created h \<and>
   mValuePtr (fst (snd (Evaluator_value E ev h))) = Some (fst (Evaluator_value E ev h)) \<and>
   mDerivativePtr (fst (snd (Evaluator_value E ev h))) = mDerivativePtr ev \<and>
   mExpression (fst (snd (Evaluator_value E ev h))) = snd (expr_value E (mExpression ev)) \<and>
   created (snd (snd (Evaluator_value E ev h))) = Suc (created h) \<and>
   alive (snd (snd (Evaluator_value E ev h)))
     = insert (created h) (alive h) - (case mValuePtr ev of None \<Rightarrow> {} | Some r \<Rightarrow> {fst r}) \<and>
   fst (snd (value_twice E ev h)) \<noteq> fst (value_twice E ev h) \<and>
   fst (fst (value_twice E ev h)) \<notin> alive (snd (snd (snd (value_twice E ev h)))) \<and>
   fst (fst (snd (value_twice E ev h))) \<in> alive (snd (snd (snd (value_twice E ev h)))) \<and>
   (fst (expr_value E (snd (expr_value E (mExpression ev)))) = fst (expr_value E (mExpression ev))
      \<longrightarrow> snd (fst (snd (value_twice E ev h))) = snd (fst (value_twice E ev h))) \<and>
   snd (fst (Evaluator_pushForward E ev h)) = fst (expr_pushForward E (mExpression ev)) \<and>
   fst (fst (Evaluator_pushForward E ev h)) = created h \<and>
   mDerivativePtr (fst (snd (Evaluator_pushForward E ev h))) = Some (fst (Evaluator_pushForward E ev h)) \<and>
   mValuePtr (fst (snd (Evaluator_pushForward E ev h))) = mValuePtr ev \<and>
   mExpression (fst (snd (Evaluator_pushForward E ev h))) = snd (expr_pushForward E (mExpression ev)) \<and>
   created (snd (snd (Evaluator_pushForward E ev h))) = Suc (created h) \<and>
   alive (snd (snd (Evaluator_pushForward E ev h)))
     = insert (created h) (alive h) - (case mDerivativePtr ev of None \<Rightarrow> {} | Some r \<Rightarrow> {fst r}) \<and>
   fst (snd (pushForward_twice E ev h)) \<noteq> fst (pushForward_twice E ev h) \<and>
   fst (fst (pushForward_twice E ev h)) \<notin> alive (snd (snd (snd (pushForward_twice E ev h)))) \<and>
   fst (fst (snd (pushForward_twice E ev h))) \<in> alive (snd (snd (snd (pushForward_twice E ev h)))) \<and>
   (fst (expr_pushForward E (snd (expr_pushForward E (mExpression ev))))
        = fst (expr_pushForward E (mExpression ev))
      \<longrightarrow> snd (fst (snd (pushForward_twice E ev h))) = snd (fst (pushForward_twice E ev h))) \<and>
   fst (Evaluator_releaseCache E ev h)
     = \<lparr>mExpression = expr_releaseCache E (mExpression ev), mValuePtr = None, mDerivativePtr = None\<rparr> \<and>
   created (snd (Evaluator_releaseCache E ev h)) = created h \<and>
   alive (snd (Evaluator_releaseCache E ev h))
     = alive h - (case mValuePtr ev of None \<Rightarrow> {} | Some r \<Rightarrow> {fst r})
               - (case mDerivativePtr ev of None \<Rightarrow> {} | Some r \<Rightarrow> {fst r})"
  by (simp add: value_twice_unfold pushForward_twice_unfold Evaluator_value_unfold
      Evaluator_pushForward_unfold Evaluator_releaseCache_def Let_def alive_destroy)

theorem Evaluator_value_recomputes_witness:
  "fst (expr_value doubling (snd (expr_value doubling (3, 0)))) = fst (expr_value doubling (3, 0)) \<and>
   fst (expr_pushForward doubling (snd (expr_pushForward doubling (3, 0))))
     = fst (expr_pushForward doubling (3, 0)) \<and>
   snd (fst (snd (value_twice doubling (Evaluator_init (3, 0)) store0))) = 6 \<and>
   snd (fst (value_twice doubling (Evaluator_init (3, 0)) store0)) = 6 \<and>
   snd (fst (snd (pushForward_twice doubling (Evaluator_init (3, 0)) store0))) = 2 \<and>
   alive (snd (snd (Evaluator_value doubling (Evaluator_init (3, 0)) store0))) = {0} \<and>
   alive (snd (snd (snd (value_twice doubling (Evaluator_init (3, 0)) store0)))) = {1} \<and>
   alive (snd (Evaluator_releaseCache doubling
       \<lparr>mExpression = (3, 2), mValuePtr = Some (1, 6), mDerivativePtr = Some (2, 2)\<rparr>
       \<lparr>created = 3, alive = {1, 2}\<rparr>)) = {}"
  using Evaluator_value_recomputes [of doubling "Evaluator_init (3, 0)" store0]
    Evaluator_value_recomputes [of doubling
      "\<lparr>mExpression = (3, 2), mValuePtr = Some (1, 6), mDerivativePtr = Some (2, 2)\<rparr>"
      "\<lparr>created = 3, alive = {1, 2}\<rparr>"]
  by (auto simp: doubling_def Evaluator_init_def store0_def value_twice_unfold pushForward_twice_unfold
      Evaluator_value_unfold Evaluator_pushForward_unfold Evaluator_releaseCache_def Let_def
      alive_destroy)

text \<open>
  C10: \<^verbatim>\<open>releaseCache()\<close> of a variable's evaluator changes nothing. The evaluator, the
  variable it holds (with its stored value and derivative) and the free store are the
  same afterwards, the variable's own release function is not called, and
  \<^verbatim>\<open>value()\<close> and \<^verbatim>\<open>pushForward()\<close> give afterwards what they gave before.
\<close>

theorem EvaluatorVar_releaseCache_noop:
  "EvaluatorVar_releaseCache V ev h = (ev, h) \<and>
   mVariable (fst (EvaluatorVar_releaseCache V ev h)) = mVariable ev \<and>
   EvaluatorVar_releaseCache (V\<lparr>expr_releaseCache := r\<rparr>) ev h = EvaluatorVar_releaseCache V ev h \<and>
   EvaluatorVar_value V (fst (EvaluatorVar_releaseCache V ev h)) = EvaluatorVar_value V ev \<and>
   EvaluatorVar_pushForward V (fst (EvaluatorVar_releaseCache V ev h)) = EvaluatorVar_pushForward V ev"
  by (simp add: EvaluatorVar_releaseCache_def)

theorem EvaluatorVar_releaseCache_noop_witness:
  "EvaluatorVar_releaseCache stored \<lparr>mVariable = (3, 7)\<rparr> store0 = (\<lparr>mVariable = (3, 7)\<rparr>, store0) \<and>
   expr_releaseCache stored (3, 7) = (3, 0) \<and>
   fst (EvaluatorVar_pushForward stored (fst (EvaluatorVar_releaseCache stored \<lparr>mVariable = (3, 7)\<rparr> store0))) = 7"
  using EvaluatorVar_releaseCache_noop [of stored "\<lparr>mVariable = (3, 7)\<rparr>" store0]
  by (simp add: stored_def EvaluatorVar_pushForward_def)

section \<open>Properties of the construction of a Function\<close>








section \<open>Properties of compilation\<close>


lemma operands_first_snoc:
  "operands_first E (xs @ [n]) \<longleftrightarrow> operands_first E xs \<and> n \<notin> set xs \<and> (\<forall>m. (n, m) \<in> E \<longrightarrow> m \<in> set xs)"
  by (auto simp: operands_first_def nth_append less_Suc_eq)


lemma walked_operands: "n \<notin> S \<Longrightarrow> m \<in> set (operands g n) \<Longrightarrow> (n, m) \<in> walked g S"
  by (simp add: walked_def)

lemma walked_source: "n \<in> S \<Longrightarrow> (n, m) \<notin> walked g S"
  by (simp add: walked_def)

lemma walked_outside: "\<not> n < length g \<Longrightarrow> (n, m) \<notin> walked g S"
  by (simp add: walked_def operands_def)

lemma visit_sound:
  "operands_first (walked g S) ord \<Longrightarrow> visit g S path n ord = Inr ord' \<Longrightarrow>
     operands_first (walked g S) ord' \<and> set ord \<union> {n} \<subseteq> set ord' \<and>
     set ord' \<subseteq> set ord \<union> ((walked g S)\<^sup>* `` {n} - set path)"
  and visit_all_sound:
  "operands_first (walked g S) ord \<Longrightarrow> visit_all g S path ns ord = Inr ord' \<Longrightarrow>
     operands_first (walked g S) ord' \<and> set ord \<union> set ns \<subseteq> set ord' \<and>
     set ord' \<subseteq> set ord \<union> ((walked g S)\<^sup>* `` set ns - set path)"
proof (induction g S path n ord and g S path ns ord arbitrary: ord' and ord'
    rule: visit_visit_all.induct)
  case (1 g S path n ord)
  show ?case
  proof (cases "n \<in> set ord")
    case True
    with "1.prems" show ?thesis by auto
  next
    case notin: False
    show ?thesis
    proof (cases "n \<in> set path")
      case True
      with notin "1.prems" show ?thesis by simp
    next
      case nopath: False
      show ?thesis
      proof (cases "n \<in> S \<or> \<not> n < length g")
        case True
        with notin nopath "1.prems" have ord': "ord' = ord @ [n]" by auto
        from True have "\<forall>m. (n, m) \<notin> walked g S"
          using walked_source walked_outside by blast
        with notin "1.prems"(1) have "operands_first (walked g S) (ord @ [n])"
          by (simp add: operands_first_snoc)
        with ord' nopath show ?thesis by auto
      next
        case expand: False
        with notin nopath "1.prems" obtain o1 where
          o1: "visit_all g S (n # path) (operands g n) ord = Inr o1" and ord': "ord' = o1 @ [n]"
          by (auto split: sum.splits)
        from "1.IH"[OF notin nopath expand "1.prems"(1) o1]
        have ih: "operands_first (walked g S) o1" "set ord \<union> set (operands g n) \<subseteq> set o1"
          "set o1 \<subseteq> set ord \<union> ((walked g S)\<^sup>* `` set (operands g n) - set (n # path))"
          by auto
        from ih(3) notin have n_o1: "n \<notin> set o1" by auto
        have "\<forall>m. (n, m) \<in> walked g S \<longrightarrow> m \<in> set o1"
          using ih(2) by (auto simp: walked_def)
        with ih(1) n_o1 have A: "operands_first (walked g S) ord'"
          by (simp add: ord' operands_first_snoc)
        have "(walked g S)\<^sup>* `` set (operands g n) \<subseteq> (walked g S)\<^sup>* `` {n}"
        proof
          fix x assume "x \<in> (walked g S)\<^sup>* `` set (operands g n)"
          then obtain m where m: "m \<in> set (operands g n)" "(m, x) \<in> (walked g S)\<^sup>*" by auto
          from expand m(1) have "(n, m) \<in> walked g S" by (simp add: walked_def)
          with m(2) show "x \<in> (walked g S)\<^sup>* `` {n}" by (auto intro: converse_rtrancl_into_rtrancl)
        qed
        with ih(3) nopath have C: "set ord' \<subseteq> set ord \<union> ((walked g S)\<^sup>* `` {n} - set path)"
          by (auto simp: ord')
        from A C ih(2) show ?thesis by (auto simp: ord')
      qed
    qed
  qed
next
  case (2 g S path ord)
  then show ?case by simp
next
  case (3 g S path m ms ord)
  from "3.prems" obtain o1 where
    o1: "visit g S path m ord = Inr o1" and rest: "visit_all g S path ms o1 = Inr ord'"
    by (auto split: sum.splits)
  from "3.IH"(1)[OF "3.prems"(1) o1]
  have ih1: "operands_first (walked g S) o1" "set ord \<union> {m} \<subseteq> set o1"
    "set o1 \<subseteq> set ord \<union> ((walked g S)\<^sup>* `` {m} - set path)" by auto
  from "3.IH"(2)[OF o1 ih1(1) rest]
  have ih2: "operands_first (walked g S) ord'" "set o1 \<union> set ms \<subseteq> set ord'"
    "set ord' \<subseteq> set o1 \<union> ((walked g S)\<^sup>* `` set ms - set path)" by auto
  have "set ord' \<subseteq> set ord \<union> ((walked g S)\<^sup>* `` set (m # ms) - set path)"
  proof
    fix x assume x: "x \<in> set ord'"
    show "x \<in> set ord \<union> ((walked g S)\<^sup>* `` set (m # ms) - set path)"
    proof (cases "x \<in> set o1")
      case True
      with ih1(3) show ?thesis by auto
    next
      case False
      with x ih2(3) show ?thesis by auto
    qed
  qed
  moreover from ih1(2) ih2(2) have "set ord \<union> set (m # ms) \<subseteq> set ord'" by auto
  ultimately show ?case using ih2(1) by blast
qed

lemma visit_total:
  "acyclic (walked g S) \<Longrightarrow> \<forall>p \<in> set path. (p, n) \<in> (walked g S)\<^sup>+ \<Longrightarrow>
     \<exists>ord'. visit g S path n ord = Inr ord'"
  and visit_all_total:
  "acyclic (walked g S) \<Longrightarrow> \<forall>m \<in> set ns. \<forall>p \<in> set path. (p, m) \<in> (walked g S)\<^sup>+ \<Longrightarrow>
     \<exists>ord'. visit_all g S path ns ord = Inr ord'"
proof (induction g S path n ord and g S path ns ord rule: visit_visit_all.induct)
  case (1 g S path n ord)
  have nopath: "n \<notin> set path"
  proof
    assume "n \<in> set path"
    with "1.prems"(2) have "(n, n) \<in> (walked g S)\<^sup>+" by blast
    with "1.prems"(1) show False by (simp add: acyclic_def)
  qed
  show ?case
  proof (cases "n \<in> set ord \<or> n \<in> S \<or> \<not> n < length g")
    case True
    with nopath show ?thesis by auto
  next
    case False
    then have c: "n \<notin> set ord" "\<not> (n \<in> S \<or> \<not> n < length g)" by auto
    have "\<forall>m \<in> set (operands g n). \<forall>p \<in> set (n # path). (p, m) \<in> (walked g S)\<^sup>+"
    proof (intro ballI)
      fix m p assume m: "m \<in> set (operands g n)" and p: "p \<in> set (n # path)"
      from c m have e: "(n, m) \<in> walked g S" by (simp add: walked_def)
      show "(p, m) \<in> (walked g S)\<^sup>+"
      proof (cases "p = n")
        case True with e show ?thesis by auto
      next
        case False
        with p "1.prems"(2) have "(p, n) \<in> (walked g S)\<^sup>+" by auto
        then show ?thesis using e by (rule trancl_into_trancl)
      qed
    qed
    from "1.IH"[OF c(1) nopath c(2) "1.prems"(1) this]
    obtain o1 where "visit_all g S (n # path) (operands g n) ord = Inr o1" by blast
    with c nopath show ?thesis by simp
  qed
next
  case (2 g S path ord)
  then show ?case by simp
next
  case (3 g S path m ms ord)
  from "3.IH"(1)[OF "3.prems"(1)] "3.prems"(2)
  obtain o1 where o1: "visit g S path m ord = Inr o1" by auto
  from "3.IH"(2)[OF o1 "3.prems"(1)] "3.prems"(2)
  obtain o2 where "visit_all g S path ms o1 = Inr o2" by auto
  with o1 show ?case by simp
qed

lemma visit_error: "visit g S path n ord = Inl e \<Longrightarrow> e = CyclicDependencyError"
  and visit_all_error: "visit_all g S path ns ord = Inl e \<Longrightarrow> e = CyclicDependencyError"
proof (induction g S path n ord and g S path ns ord rule: visit_visit_all.induct)
  case (1 g S path n ord)
  then show ?case by (auto split: if_splits sum.splits)
next
  case (2 g S path ord)
  then show ?case by simp
next
  case (3 g S path m ms ord)
  then show ?case by (auto split: sum.splits)
qed






lemma walked_empty: "walked g {} = depends_on g"
  by (auto simp: walked_def depends_on_def)



















end
